theory Spec2Isabelle
  imports Main "HOL-Library.Word"
begin

section \<open>Data model of \<open>src/profiler/telemeh.c\<close>\<close>

text \<open>
  The embedding fixes the platform the file is written for (x86-64, LP64):
  \<open>unsigned int\<close> and \<open>int\<close> are 32 bits wide, \<open>unsigned long long\<close>, \<open>long\<close>,
  \<open>intptr_t\<close> and \<open>time_t\<close> are 64 bits wide. Unsigned arithmetic wraps, which is
  what the word types do. A \<open>double\<close> is kept as its 64-bit IEEE-754 pattern; the
  arithmetic on doubles is not interpreted but taken from a parameter (see \<open>fpu\<close>).
  A \<open>const char *\<close> description is modelled by the string it points to.
\<close>

type_synonym u32 = "32 word"
type_synonym u64 = "64 word"
type_synonym intptr_t = "64 word"
type_synonym double = "64 word"

datatype RecordType =
    Calibration
  | Epoch
  | TimeStamp
  | IntervalStart
  | IntervalEnd
  | IntervalAnnotation

text \<open>
  \<open>struct TelemetryRecord\<close>. The members of the anonymous union are laid out as fields of
  their own, named \<open>member_field\<close>. The program only ever reads the member that belongs
  to the record's \<open>recordType\<close>, and every writer that sets a \<open>recordType\<close> also writes
  all fields of that member, so the overlap of the members in memory is never observed.
\<close>

record TelemetryRecord =
  recordType :: RecordType
  threadID :: intptr_t
  calibration_ticksPerSecond :: double
  epoch_time :: u64
  timeStamp_time :: u64
  timeStamp_description :: string
  interval_time :: u64
  interval_intervalID :: u32
  interval_description :: string
  annotation_intervalID :: u32
  annotation_description :: string

definition RECORD_BUFFER_SIZE :: u32 where
  "RECORD_BUFFER_SIZE = 10000"

text \<open>\<open>struct timespec\<close>: both fields are \<open>long\<close>, kept as their two's complement bits.\<close>

record timespec =
  tv_sec :: u64
  tv_nsec :: u64

text \<open>
  What the program asks of the machine and the operating system: \<open>clock_gettime\<close> on
  \<open>CLOCK_MONOTONIC\<close>, the \<open>RDTSCP\<close> instruction and \<open>sleep\<close>. The trace records the
  requests in program order; the answer to a request is a function of the number of
  requests made before it.
\<close>

datatype hw_event = ClockGettime | Rdtscp | Sleep nat

text \<open>
  The globals of the file. \<open>recordBuffer\<close> is a store from slot index to record; the C
  array has the slots below \<open>RECORD_BUFFER_SIZE\<close> (see \<open>newRecord_in_bounds\<close>).
\<close>

record telemetry =
  ticksPerSecond :: double
  recordBuffer :: "nat \<Rightarrow> TelemetryRecord"
  recordBufferIndex :: u32
  lastSerializedIndex :: u32
  beginningEpoch :: u64
  telemetry_active :: u32
  intervalIDCounter :: u32
  tsc_source :: "nat \<Rightarrow> u64"
  clock_source :: "nat \<Rightarrow> timespec"
  hw_trace :: "hw_event list"

section \<open>Slot allocation\<close>

text \<open>
  \<open>__atomic_compare_exchange_n(&recordBufferIndex, &expected, desired, ...)\<close> as one
  indivisible step: the result is the success flag, the new value of \<open>expected\<close> and
  the new state.
\<close>

definition atomic_compare_exchange_n :: "u32 \<Rightarrow> u32 \<Rightarrow> telemetry \<Rightarrow> bool \<times> u32 \<times> telemetry" where
  "atomic_compare_exchange_n expected desired s =
     (if recordBufferIndex s = expected
      then (True, expected, s\<lparr>recordBufferIndex := desired\<rparr>)
      else (False, recordBufferIndex s, s))"

text \<open>
  \<open>newRecord\<close>, run by one thread with no other thread in between. The result is the
  index of the slot the returned pointer \<open>&recordBuffer[recordIndex]\<close> points to.
\<close>

function newRecord :: "telemetry \<Rightarrow> u32 \<times> telemetry" where
  "newRecord s =
     (let recordIndex = recordBufferIndex s;
          newBufferIndex = (recordBufferIndex s + 1) mod RECORD_BUFFER_SIZE;
          (ok, recordIndex', s') = atomic_compare_exchange_n recordIndex newBufferIndex s
      in if \<not> ok then newRecord s' else (recordIndex', s'))"
  by pat_completeness auto
termination
  by (relation "{}") (auto simp: atomic_compare_exchange_n_def)

text \<open>
  A field assignment through the pointer \<open>newRecord\<close> returned: \<open>record->... = v\<close>.
\<close>

definition assign_record :: "u32 \<Rightarrow> (TelemetryRecord \<Rightarrow> TelemetryRecord) \<Rightarrow> telemetry \<Rightarrow> telemetry" where
  "assign_record record f s =
     s\<lparr>recordBuffer := (recordBuffer s)(unat record := f (recordBuffer s (unat record)))\<rparr>"

section \<open>The machine\<close>

definition READ_TSC :: "telemetry \<Rightarrow> u64 \<times> telemetry" where
  "READ_TSC s = (tsc_source s (length (hw_trace s)), s\<lparr>hw_trace := hw_trace s @ [Rdtscp]\<rparr>)"

definition clock_gettime :: "telemetry \<Rightarrow> timespec \<times> telemetry" where
  "clock_gettime s =
     (clock_source s (length (hw_trace s)), s\<lparr>hw_trace := hw_trace s @ [ClockGettime]\<rparr>)"

definition sleep :: "nat \<Rightarrow> telemetry \<Rightarrow> telemetry" where
  "sleep seconds s = s\<lparr>hw_trace := hw_trace s @ [Sleep seconds]\<rparr>"

text \<open>
  The operations on \<open>double\<close> the file uses: the conversion \<open>(double)\<close> of an
  \<open>unsigned long long\<close>, division, multiplication, and the text \<open>printf\<close> gives for
  \<open>%f\<close>. They are parameters of the model.
\<close>

record fpu =
  u64_to_double :: "u64 \<Rightarrow> double"
  double_div :: "double \<Rightarrow> double \<Rightarrow> double"
  double_mul :: "double \<Rightarrow> double \<Rightarrow> double"
  printf_f :: "double \<Rightarrow> string"

text \<open>The literal \<open>1000000000.0\<close>: sign 0, exponent \<open>1052\<close>, that is \<open>1.862645149230957 * 2^29\<close>.\<close>

definition double_1e9 :: double where
  "double_1e9 = 0x41CDCD6500000000"

section \<open>Event API\<close>

text \<open>\<open>__atomic_fetch_add(&intervalIDCounter, 1, ...)\<close>: the old value is returned.\<close>

definition atomic_fetch_add_intervalIDCounter :: "u32 \<Rightarrow> telemetry \<Rightarrow> u32 \<times> telemetry" where
  "atomic_fetch_add_intervalIDCounter n s =
     (intervalIDCounter s, s\<lparr>intervalIDCounter := intervalIDCounter s + n\<rparr>)"

definition takeTimeStamp :: "intptr_t \<Rightarrow> string \<Rightarrow> telemetry \<Rightarrow> telemetry" where
  "takeTimeStamp tid description s =
     (if telemetry_active s = 0 then s
      else
        let (record, s1) = newRecord s;
            (tsc, s2) = READ_TSC s1;
            s3 = assign_record record (\<lambda>r. r\<lparr>timeStamp_time := tsc\<rparr>) s2;
            s4 = assign_record record (\<lambda>r. r\<lparr>recordType := TimeStamp\<rparr>) s3;
            s5 = assign_record record (\<lambda>r. r\<lparr>threadID := tid\<rparr>) s4
        in assign_record record (\<lambda>r. r\<lparr>timeStamp_description := description\<rparr>) s5)"

definition startInterval :: "intptr_t \<Rightarrow> string \<Rightarrow> telemetry \<Rightarrow> u32 \<times> telemetry" where
  "startInterval tid description s =
     (if telemetry_active s = 0 then (0, s)
      else
        let (record, s1) = newRecord s;
            (intervalID, s2) = atomic_fetch_add_intervalIDCounter 1 s1;
            (tsc, s3) = READ_TSC s2;
            s4 = assign_record record (\<lambda>r. r\<lparr>interval_time := tsc\<rparr>) s3;
            s5 = assign_record record (\<lambda>r. r\<lparr>recordType := IntervalStart\<rparr>) s4;
            s6 = assign_record record (\<lambda>r. r\<lparr>threadID := tid\<rparr>) s5;
            s7 = assign_record record (\<lambda>r. r\<lparr>interval_intervalID := intervalID\<rparr>) s6;
            s8 = assign_record record (\<lambda>r. r\<lparr>interval_description := description\<rparr>) s7
        in (intervalID, s8))"

text \<open>
  \<open>stopInterval\<close> and \<open>annotateInterval\<close> take the identifier as an \<open>int\<close> and store it
  in an \<open>unsigned int\<close> field: the same 32 bits.
\<close>

definition stopInterval :: "intptr_t \<Rightarrow> u32 \<Rightarrow> string \<Rightarrow> telemetry \<Rightarrow> telemetry" where
  "stopInterval tid intervalID description s =
     (if telemetry_active s = 0 then s
      else
        let (record, s1) = newRecord s;
            (tsc, s2) = READ_TSC s1;
            s3 = assign_record record (\<lambda>r. r\<lparr>interval_time := tsc\<rparr>) s2;
            s4 = assign_record record (\<lambda>r. r\<lparr>recordType := IntervalEnd\<rparr>) s3;
            s5 = assign_record record (\<lambda>r. r\<lparr>threadID := tid\<rparr>) s4;
            s6 = assign_record record (\<lambda>r. r\<lparr>interval_intervalID := intervalID\<rparr>) s5
        in assign_record record (\<lambda>r. r\<lparr>interval_description := description\<rparr>) s6)"

definition annotateInterval :: "intptr_t \<Rightarrow> u32 \<Rightarrow> string \<Rightarrow> telemetry \<Rightarrow> telemetry" where
  "annotateInterval subject intervalID description s =
     (if telemetry_active s = 0 then s
      else
        let (record, s1) = newRecord s;
            s2 = assign_record record (\<lambda>r. r\<lparr>recordType := IntervalAnnotation\<rparr>) s1;
            s3 = assign_record record (\<lambda>r. r\<lparr>threadID := subject\<rparr>) s2;
            s4 = assign_record record (\<lambda>r. r\<lparr>annotation_intervalID := intervalID\<rparr>) s3
        in assign_record record (\<lambda>r. r\<lparr>annotation_description := description\<rparr>) s4)"

section \<open>Clock calibration\<close>

text \<open>
  \<open>calibrateTSC\<close>. The \<open>outfile\<close> argument is not used by the function. The wall-clock
  difference is computed in \<open>long\<close> and converted to \<open>unsigned long long\<close>.
\<close>

definition calibrateTSC :: "fpu \<Rightarrow> string \<Rightarrow> telemetry \<Rightarrow> telemetry" where
  "calibrateTSC fp outfile s =
     (let (startTime, s1) = clock_gettime s;
          (startTsc, s2) = READ_TSC s1;
          s3 = sleep 1 s2;
          (endTime, s4) = clock_gettime s3;
          (endTsc, s5) = READ_TSC s4;
          ticks = endTsc - startTsc;
          wallClockTime = (tv_sec endTime - tv_sec startTime) * 1000000000
                            + (tv_nsec endTime - tv_nsec startTime);
          s6 = s5\<lparr>ticksPerSecond :=
                    double_div fp (u64_to_double fp ticks) (u64_to_double fp wallClockTime)\<rparr>
      in s6\<lparr>ticksPerSecond := double_mul fp (ticksPerSecond s6) double_1e9\<rparr>)"

section \<open>Rendering\<close>

text \<open>
  The conversions of \<open>fprintf\<close> the file uses. A field narrower than its width is
  padded with blanks on the left; a wider one is printed in full.
\<close>

definition pad_left :: "nat \<Rightarrow> string \<Rightarrow> string" where
  "pad_left width str = replicate (width - length str) CHR '' '' @ str"

definition digit_char :: "nat \<Rightarrow> char" where
  "digit_char d = ''0123456789abcdef'' ! d"

fun dec_digits :: "nat \<Rightarrow> string" where
  "dec_digits n = (if n < 10 then [digit_char n] else dec_digits (n div 10) @ [digit_char (n mod 10)])"

fun hex_digits :: "nat \<Rightarrow> string" where
  "hex_digits n = (if n < 16 then [digit_char n] else hex_digits (n div 16) @ [digit_char (n mod 16)])"

definition signed_dec :: "int \<Rightarrow> string" where
  "signed_dec i = (if i < 0 then ''-'' @ dec_digits (nat (- i)) else dec_digits (nat i))"

text \<open>
  \<open>% 10x\<close>: the conversion takes an \<open>unsigned int\<close>, and the blank flag has no effect on
  an unsigned conversion. The argument the file passes is the 64-bit \<open>threadID\<close>, of
  which the conversion reads the low 32 bits.
\<close>

definition printf_x :: "nat \<Rightarrow> u32 \<Rightarrow> string" where
  "printf_x width v = pad_left width (hex_digits (unat v))"

text \<open>\<open>%ld\<close> and \<open>%15ld\<close> read the 64-bit argument as a \<open>long\<close>; \<open>%d\<close> reads 32 bits as an \<open>int\<close>.\<close>

definition printf_ld :: "nat \<Rightarrow> u64 \<Rightarrow> string" where
  "printf_ld width v = pad_left width (signed_dec (sint v))"

definition printf_d :: "u32 \<Rightarrow> string" where
  "printf_d v = signed_dec (sint v)"

definition printf_s :: "nat \<Rightarrow> string \<Rightarrow> string" where
  "printf_s width str = pad_left width str"

definition dquote :: string where
  "dquote = [CHR 0x22]"

definition newline :: string where
  "newline = [CHR 0x0A]"

text \<open>
  The body of the loop of \<open>serializeTelemetryBufferRange\<close>: what the \<open>fprintf\<close> calls
  append for one record.
\<close>

definition serializeRecord :: "fpu \<Rightarrow> telemetry \<Rightarrow> TelemetryRecord \<Rightarrow> string" where
  "serializeRecord fp s record =
     printf_x 10 (ucast (threadID record)) @ '' '' @
     (case recordType record of
        Calibration \<Rightarrow>
          ''Calibration: '' @ printf_f fp (calibration_ticksPerSecond record)
            @ '' ticks per second'' @ newline
      | Epoch \<Rightarrow>
          ''Epoch counter: '' @ printf_ld 0 (epoch_time record) @ newline
      | TimeStamp \<Rightarrow>
          printf_ld 15 (timeStamp_time record - beginningEpoch s)
            @ '' -|- Time stamp:     '' @ dquote @ timeStamp_description record @ dquote @ newline
      | IntervalStart \<Rightarrow>
          printf_ld 15 (interval_time record - beginningEpoch s)
            @ '' (-  Interval start: '' @ dquote @ interval_description record @ dquote
            @ '' ('' @ printf_d (interval_intervalID record) @ '')'' @ newline
      | IntervalEnd \<Rightarrow>
          printf_ld 15 (interval_time record - beginningEpoch s)
            @ ''  -) Interval stop:  '' @ dquote @ interval_description record @ dquote
            @ '' ('' @ printf_d (interval_intervalID record) @ '')'' @ newline
      | IntervalAnnotation \<Rightarrow>
          printf_s 15 '' ''
            @ '' ??? Annotation:     '' @ dquote @ annotation_description record @ dquote
            @ '' ('' @ printf_d (annotation_intervalID record) @ '')'' @ newline)"

text \<open>
  The \<open>for\<close> loop of \<open>serializeTelemetryBufferRange\<close>, with the loop variable \<open>i\<close> as
  an argument; \<open>outfile\<close> is the text written to the sink so far.
\<close>

function serializeTelemetryBufferRange_loop ::
  "fpu \<Rightarrow> string \<Rightarrow> u32 \<Rightarrow> u32 \<Rightarrow> telemetry \<Rightarrow> string" where
  "serializeTelemetryBufferRange_loop fp outfile i serializationEnd s =
     (if i < serializationEnd
      then serializeTelemetryBufferRange_loop fp
             (outfile @ serializeRecord fp s (recordBuffer s (unat i))) (i + 1) serializationEnd s
      else outfile)"
  by pat_completeness auto
termination
proof (relation "measure (\<lambda>(fp, outfile, i, serializationEnd, s). unat serializationEnd - unat i)")
  show "wf (measure (\<lambda>(fp, outfile, i, serializationEnd, s). unat serializationEnd - unat i))"
    by simp
next
  fix fp :: fpu and outfile :: string and i serializationEnd :: u32 and s :: telemetry
  assume lt: "i < serializationEnd"
  then have "unat i < unat serializationEnd"
    by (simp add: word_less_nat_alt)
  moreover have "unat serializationEnd < 2 ^ 32"
    using unsigned_less [of serializationEnd] by simp
  ultimately have "unat (i + 1) = unat i + 1"
    by (simp add: unat_word_ariths)
  moreover note \<open>unat i < unat serializationEnd\<close>
  ultimately show "((fp, outfile @ serializeRecord fp s (recordBuffer s (unat i)), i + 1, serializationEnd, s),
          (fp, outfile, i, serializationEnd, s))
         \<in> measure (\<lambda>(fp, outfile, i, serializationEnd, s). unat serializationEnd - unat i)"
    by simp
qed

definition serializeTelemetryBufferRange ::
  "fpu \<Rightarrow> string \<Rightarrow> u32 \<Rightarrow> u32 \<Rightarrow> telemetry \<Rightarrow> string" where
  "serializeTelemetryBufferRange fp outfile serializationStart serializationEnd s =
     serializeTelemetryBufferRange_loop fp outfile serializationStart serializationEnd s"

definition serializeTelemetryBuffer :: "fpu \<Rightarrow> string \<Rightarrow> telemetry \<Rightarrow> string \<times> telemetry" where
  "serializeTelemetryBuffer fp outfile s =
     (let serializationEnd = recordBufferIndex s;
          serializationStart = lastSerializedIndex s;
          outfile' =
            (if serializationEnd < serializationStart
             then
               let outfile1 = serializeTelemetryBufferRange fp outfile serializationStart RECORD_BUFFER_SIZE s
               in serializeTelemetryBufferRange fp outfile1 0 serializationEnd s
             else serializeTelemetryBufferRange fp outfile serializationStart serializationEnd s)
      in (outfile', s\<lparr>lastSerializedIndex := serializationEnd\<rparr>))"

section \<open>Start-up\<close>

text \<open>
  \<open>initTelemetry\<close>, up to the call of \<open>pthread_create\<close>. The background thread it starts
  runs \<open>serializeTelemetryBuffer\<close> once a second; here a drain pass is a call of
  \<open>serializeTelemetryBuffer\<close> between the calls of the event API (see \<open>run_calls\<close>).
\<close>

definition initTelemetry :: "fpu \<Rightarrow> string \<Rightarrow> telemetry \<Rightarrow> telemetry" where
  "initTelemetry fp outfile s =
     (let s1 = s\<lparr>telemetry_active := 1\<rparr>;
          s2 = calibrateTSC fp outfile s1;
          (calibrationRecord, s3) = newRecord s2;
          s4 = assign_record calibrationRecord
                 (\<lambda>r. r\<lparr>calibration_ticksPerSecond := ticksPerSecond s3\<rparr>) s3;
          s5 = assign_record calibrationRecord (\<lambda>r. r\<lparr>recordType := Calibration\<rparr>) s4;
          (epochRecord, s6) = newRecord s5;
          (tsc, s7) = READ_TSC s6;
          s8 = assign_record epochRecord (\<lambda>r. r\<lparr>epoch_time := tsc\<rparr>) s7;
          s9 = assign_record epochRecord (\<lambda>r. r\<lparr>recordType := Epoch\<rparr>) s8
      in s9\<lparr>beginningEpoch := epoch_time (recordBuffer s9 (unat epochRecord))\<rparr>)"

text \<open>
  The globals as the C start-up leaves them: static storage is zero, so every slot has
  \<open>recordType\<close> \<open>Calibration\<close> (the enumerator 0), thread id 0 and null descriptions
  (modelled by the empty string). The machine's answers are arguments.
\<close>

definition zero_record :: TelemetryRecord where
  "zero_record =
     \<lparr>recordType = Calibration, threadID = 0, calibration_ticksPerSecond = 0, epoch_time = 0,
      timeStamp_time = 0, timeStamp_description = [], interval_time = 0,
      interval_intervalID = 0, interval_description = [], annotation_intervalID = 0,
      annotation_description = []\<rparr>"

definition initial_state :: "(nat \<Rightarrow> u64) \<Rightarrow> (nat \<Rightarrow> timespec) \<Rightarrow> telemetry" where
  "initial_state tsc clock =
     \<lparr>ticksPerSecond = 0, recordBuffer = (\<lambda>i. zero_record), recordBufferIndex = 0,
      lastSerializedIndex = 0, beginningEpoch = 0, telemetry_active = 0,
      intervalIDCounter = 0, tsc_source = tsc, clock_source = clock, hw_trace = []\<rparr>"

section \<open>Sequences of calls\<close>

text \<open>
  A sequential run of the program after start-up: calls of the event API by the
  producers and drain passes, in some order. \<open>run_calls\<close> returns the identifiers the
  \<open>startInterval\<close> calls returned (in call order), the text in the sink and the state.
\<close>

datatype api_call =
    CallTakeTimeStamp intptr_t string
  | CallStartInterval intptr_t string
  | CallStopInterval intptr_t u32 string
  | CallAnnotateInterval intptr_t u32 string
  | CallSerializeTelemetryBuffer

fun run_calls :: "fpu \<Rightarrow> api_call list \<Rightarrow> string \<Rightarrow> telemetry \<Rightarrow> u32 list \<times> string \<times> telemetry" where
  "run_calls fp [] outfile s = ([], outfile, s)"
| "run_calls fp (CallTakeTimeStamp tid description # calls) outfile s =
     run_calls fp calls outfile (takeTimeStamp tid description s)"
| "run_calls fp (CallStartInterval tid description # calls) outfile s =
     (let (intervalID, s') = startInterval tid description s;
          (ids, outfile', s'') = run_calls fp calls outfile s'
      in (intervalID # ids, outfile', s''))"
| "run_calls fp (CallStopInterval tid intervalID description # calls) outfile s =
     run_calls fp calls outfile (stopInterval tid intervalID description s)"
| "run_calls fp (CallAnnotateInterval tid intervalID description # calls) outfile s =
     run_calls fp calls outfile (annotateInterval tid intervalID description s)"
| "run_calls fp (CallSerializeTelemetryBuffer # calls) outfile s =
     (let (outfile', s') = serializeTelemetryBuffer fp outfile s
      in run_calls fp calls outfile' s')"

text \<open>The number of \<open>startInterval\<close> calls in a run.\<close>

fun count_startInterval :: "api_call list \<Rightarrow> nat" where
  "count_startInterval [] = 0"
| "count_startInterval (CallStartInterval tid description # calls) = Suc (count_startInterval calls)"
| "count_startInterval (c # calls) = count_startInterval calls"

text \<open>\<open>n\<close> calls of \<open>newRecord\<close> in a row: the slot indices in the order they were handed out.\<close>

fun newRecords :: "nat \<Rightarrow> telemetry \<Rightarrow> u32 list \<times> telemetry" where
  "newRecords 0 s = ([], s)"
| "newRecords (Suc n) s =
     (let (recordIndex, s') = newRecord s;
          (indices, s'') = newRecords n s'
      in (recordIndex # indices, s''))"

text \<open>A \<open>timespec\<close> reading in nanoseconds, in 64-bit arithmetic.\<close>

definition timespec_nanoseconds :: "timespec \<Rightarrow> u64" where
  "timespec_nanoseconds t = tv_sec t * 1000000000 + tv_nsec t"

section \<open>The active member of a record\<close>

text \<open>
  A record with every field outside the member that belongs to its \<open>recordType\<close> reset.
  \<open>serializeRecord\<close> gives the same line for both (\<open>serializeRecord_tagged_member\<close>):
  the rendering reads the tagged member only.
\<close>

definition tagged_member :: "TelemetryRecord \<Rightarrow> TelemetryRecord" where
  "tagged_member r =
     (case recordType r of
        Calibration \<Rightarrow>
          zero_record\<lparr>recordType := Calibration, threadID := threadID r,
            calibration_ticksPerSecond := calibration_ticksPerSecond r\<rparr>
      | Epoch \<Rightarrow>
          zero_record\<lparr>recordType := Epoch, threadID := threadID r, epoch_time := epoch_time r\<rparr>
      | TimeStamp \<Rightarrow>
          zero_record\<lparr>recordType := TimeStamp, threadID := threadID r,
            timeStamp_time := timeStamp_time r, timeStamp_description := timeStamp_description r\<rparr>
      | IntervalStart \<Rightarrow>
          zero_record\<lparr>recordType := IntervalStart, threadID := threadID r,
            interval_time := interval_time r, interval_intervalID := interval_intervalID r,
            interval_description := interval_description r\<rparr>
      | IntervalEnd \<Rightarrow>
          zero_record\<lparr>recordType := IntervalEnd, threadID := threadID r,
            interval_time := interval_time r, interval_intervalID := interval_intervalID r,
            interval_description := interval_description r\<rparr>
      | IntervalAnnotation \<Rightarrow>
          zero_record\<lparr>recordType := IntervalAnnotation, threadID := threadID r,
            annotation_intervalID := annotation_intervalID r,
            annotation_description := annotation_description r\<rparr>)"

section \<open>Example inputs\<close>

text \<open>
  A cycle counter, a clock and stand-ins for the operations on \<open>double\<close>, used to run
  the definitions on concrete inputs. \<open>example_wrapped\<close> is a state whose write cursor
  has wrapped around since the last drain pass; slot \<open>i\<close> carries the thread id \<open>i\<close>.
\<close>

definition example_tsc :: "nat \<Rightarrow> u64" where
  "example_tsc n = 1000 + 10 * of_nat n"

definition example_clock :: "nat \<Rightarrow> timespec" where
  "example_clock n = \<lparr>tv_sec = of_nat n, tv_nsec = 500\<rparr>"

definition example_fpu :: fpu where
  "example_fpu =
     \<lparr>u64_to_double = (\<lambda>x. x), double_div = (\<lambda>a b. a div b), double_mul = (\<lambda>a b. a * b),
      printf_f = (\<lambda>d. dec_digits (unat d))\<rparr>"

definition example_wrapped :: telemetry where
  "example_wrapped =
     (initial_state example_tsc example_clock)
       \<lparr>recordBuffer := (\<lambda>i. zero_record\<lparr>threadID := of_nat i\<rparr>),
        recordBufferIndex := 2, lastSerializedIndex := 9999\<rparr>"

section \<open>Basic facts\<close>

declare newRecord.simps [simp del]
declare serializeTelemetryBufferRange_loop.simps [simp del]
declare dec_digits.simps [simp del]
declare hex_digits.simps [simp del]

lemma newRecord_eq:
  "newRecord s =
     (recordBufferIndex s,
      s\<lparr>recordBufferIndex := (recordBufferIndex s + 1) mod RECORD_BUFFER_SIZE\<rparr>)"
  by (subst newRecord.simps) (simp add: atomic_compare_exchange_n_def Let_def)

lemma unat_RECORD_BUFFER_SIZE: "unat RECORD_BUFFER_SIZE = 10000"
  by (simp add: RECORD_BUFFER_SIZE_def)

lemma next_index_unat:
  assumes "i < RECORD_BUFFER_SIZE"
  shows "unat ((i + 1) mod RECORD_BUFFER_SIZE) = (unat i + 1) mod 10000"
proof -
  from assms have "unat i < 10000"
    by (simp add: word_less_nat_alt unat_RECORD_BUFFER_SIZE)
  then have "unat (i + 1) = unat i + 1"
    by (simp add: unat_word_ariths)
  then show ?thesis
    by (simp add: unat_mod unat_RECORD_BUFFER_SIZE)
qed

lemma next_index_less: "(i + 1) mod RECORD_BUFFER_SIZE < RECORD_BUFFER_SIZE"
  by (simp add: word_less_nat_alt unat_mod unat_RECORD_BUFFER_SIZE)

lemma next_index_neq: "unat ((i + 1) mod RECORD_BUFFER_SIZE) \<noteq> unat i"
proof (cases "i < RECORD_BUFFER_SIZE")
  case True
  then have "unat i < 10000"
    by (simp add: word_less_nat_alt unat_RECORD_BUFFER_SIZE)
  then have "(unat i + 1) mod 10000 \<noteq> unat i"
    by (cases "unat i = 9999") simp_all
  with True show ?thesis
    by (simp add: next_index_unat)
next
  case False
  then have "10000 \<le> unat i"
    by (simp add: word_less_nat_alt unat_RECORD_BUFFER_SIZE)
  moreover have "unat ((i + 1) mod RECORD_BUFFER_SIZE) < 10000"
    using next_index_less [of i] by (simp add: word_less_nat_alt unat_RECORD_BUFFER_SIZE)
  ultimately show ?thesis by simp
qed

lemma newRecord_in_bounds:
  assumes "recordBufferIndex s < RECORD_BUFFER_SIZE"
  shows "unat (fst (newRecord s)) < 10000 \<and> recordBufferIndex (snd (newRecord s)) < RECORD_BUFFER_SIZE"
  using assms next_index_less [of "recordBufferIndex s"]
  by (simp add: newRecord_eq word_less_nat_alt unat_RECORD_BUFFER_SIZE)

lemma newRecords_indices:
  assumes "recordBufferIndex s < RECORD_BUFFER_SIZE"
  shows "fst (newRecords n s) = map (\<lambda>k. of_nat ((unat (recordBufferIndex s) + k) mod 10000)) [0..<n]"
  using assms
proof (induction n arbitrary: s)
  case 0
  show ?case by simp
next
  case (Suc n)
  let ?i = "recordBufferIndex s"
  let ?s' = "s\<lparr>recordBufferIndex := (?i + 1) mod RECORD_BUFFER_SIZE\<rparr>"
  from Suc.prems have small: "unat ?i < 10000"
    by (simp add: word_less_nat_alt unat_RECORD_BUFFER_SIZE)
  have "recordBufferIndex ?s' < RECORD_BUFFER_SIZE"
    by (simp add: next_index_less)
  from Suc.IH [OF this]
  have IH: "fst (newRecords n ?s') =
      map (\<lambda>k. of_nat ((unat ((?i + 1) mod RECORD_BUFFER_SIZE) + k) mod 10000)) [0..<n]"
    by simp
  have shift: "(unat ((?i + 1) mod RECORD_BUFFER_SIZE) + k) mod 10000 = (unat ?i + Suc k) mod 10000" for k
    by (simp add: next_index_unat [OF Suc.prems] mod_simps)
  have "fst (newRecords (Suc n) s) = ?i # fst (newRecords n ?s')"
    by (simp add: newRecord_eq split: prod.split)
  also have "\<dots> = ?i # map (\<lambda>k. of_nat ((unat ?i + Suc k) mod 10000)) [0..<n]"
    by (simp add: IH shift)
  also have "\<dots> = map (\<lambda>k. of_nat ((unat ?i + k) mod 10000)) (0 # map Suc [0..<n])"
    using small by (simp add: comp_def)
  also have "0 # map Suc [0..<n] = [0..<Suc n]"
    by (simp add: upt_conv_Cons map_Suc_upt del: upt_Suc)
  finally show ?case .
qed

lemma serializeTelemetryBufferRange_loop_eq:
  "serializeTelemetryBufferRange_loop fp outfile i serializationEnd s =
     outfile @ concat (map (\<lambda>n. serializeRecord fp s (recordBuffer s n)) [unat i..<unat serializationEnd])"
proof (induction fp outfile i serializationEnd s rule: serializeTelemetryBufferRange_loop.induct)
  case (1 fp outfile i serializationEnd s)
  show ?case
  proof (cases "i < serializationEnd")
    case True
    then have lt: "unat i < unat serializationEnd"
      by (simp add: word_less_nat_alt)
    moreover have "unat serializationEnd < 2 ^ 32"
      using unsigned_less [of serializationEnd] by simp
    ultimately have suc: "unat (i + 1) = Suc (unat i)"
      by (simp add: unat_word_ariths)
    have "[unat i..<unat serializationEnd] = unat i # [unat (i + 1)..<unat serializationEnd]"
      using lt by (simp add: suc upt_conv_Cons)
    with True "1.IH" show ?thesis
      by (subst serializeTelemetryBufferRange_loop.simps) simp
  next
    case False
    then have "unat serializationEnd \<le> unat i"
      by (simp add: word_less_nat_alt)
    with False show ?thesis
      by (subst serializeTelemetryBufferRange_loop.simps) simp
  qed
qed

lemmas api_defs = takeTimeStamp_def startInterval_def stopInterval_def annotateInterval_def
  newRecord_eq READ_TSC_def assign_record_def atomic_fetch_add_intervalIDCounter_def Let_def

lemma takeTimeStamp_frame:
  "telemetry_active (takeTimeStamp tid description s) = telemetry_active s"
  "intervalIDCounter (takeTimeStamp tid description s) = intervalIDCounter s"
  "beginningEpoch (takeTimeStamp tid description s) = beginningEpoch s"
  by (simp_all add: api_defs)

lemma stopInterval_frame:
  "telemetry_active (stopInterval tid intervalID description s) = telemetry_active s"
  "intervalIDCounter (stopInterval tid intervalID description s) = intervalIDCounter s"
  "beginningEpoch (stopInterval tid intervalID description s) = beginningEpoch s"
  by (simp_all add: api_defs)

lemma annotateInterval_frame:
  "telemetry_active (annotateInterval tid intervalID description s) = telemetry_active s"
  "intervalIDCounter (annotateInterval tid intervalID description s) = intervalIDCounter s"
  "beginningEpoch (annotateInterval tid intervalID description s) = beginningEpoch s"
  by (simp_all add: api_defs)

lemma startInterval_frame:
  "telemetry_active (snd (startInterval tid description s)) = telemetry_active s"
  "beginningEpoch (snd (startInterval tid description s)) = beginningEpoch s"
  by (simp_all add: api_defs)

lemma startInterval_active:
  assumes "telemetry_active s \<noteq> 0"
  shows "fst (startInterval tid description s) = intervalIDCounter s"
    and "intervalIDCounter (snd (startInterval tid description s)) = intervalIDCounter s + 1"
  using assms by (simp_all add: api_defs)

lemma takeTimeStamp_active:
  assumes "telemetry_active s \<noteq> 0"
  shows "takeTimeStamp tid description s =
     s\<lparr>recordBufferIndex := (recordBufferIndex s + 1) mod RECORD_BUFFER_SIZE,
       hw_trace := hw_trace s @ [Rdtscp],
       recordBuffer := (recordBuffer s)
         (unat (recordBufferIndex s) :=
            (recordBuffer s (unat (recordBufferIndex s)))
              \<lparr>timeStamp_time := tsc_source s (length (hw_trace s)), recordType := TimeStamp,
               threadID := tid, timeStamp_description := description\<rparr>)\<rparr>"
  using assms by (simp add: api_defs)

lemma annotateInterval_active:
  assumes "telemetry_active s \<noteq> 0"
  shows "annotateInterval subject intervalID description s =
     s\<lparr>recordBufferIndex := (recordBufferIndex s + 1) mod RECORD_BUFFER_SIZE,
       recordBuffer := (recordBuffer s)
         (unat (recordBufferIndex s) :=
            (recordBuffer s (unat (recordBufferIndex s)))
              \<lparr>recordType := IntervalAnnotation, threadID := subject,
               annotation_intervalID := intervalID, annotation_description := description\<rparr>)\<rparr>"
  using assms by (simp add: api_defs)

lemma serializeTelemetryBuffer_state:
  "snd (serializeTelemetryBuffer fp outfile s) = s\<lparr>lastSerializedIndex := recordBufferIndex s\<rparr>"
  by (simp add: serializeTelemetryBuffer_def Let_def)

lemma run_calls_frame:
  "telemetry_active (snd (snd (run_calls fp calls outfile s))) = telemetry_active s \<and>
   beginningEpoch (snd (snd (run_calls fp calls outfile s))) = beginningEpoch s"
proof (induction fp calls outfile s rule: run_calls.induct)
  case (1 fp outfile s)
  show ?case by simp
next
  case (2 fp tid description calls outfile s)
  then show ?case by (simp add: takeTimeStamp_frame)
next
  case (3 fp tid description calls outfile s)
  obtain intervalID s' where st: "startInterval tid description s = (intervalID, s')"
    by (cases "startInterval tid description s")
  from startInterval_frame [of tid description s] st
  have "telemetry_active s' = telemetry_active s" "beginningEpoch s' = beginningEpoch s"
    by simp_all
  with "3.IH" [OF st [symmetric] refl] st show ?case
    by (auto split: prod.split)
next
  case (4 fp tid intervalID description calls outfile s)
  then show ?case by (simp add: stopInterval_frame)
next
  case (5 fp tid intervalID description calls outfile s)
  then show ?case by (simp add: annotateInterval_frame)
next
  case (6 fp calls outfile s)
  obtain outfile' s' where st: "serializeTelemetryBuffer fp outfile s = (outfile', s')"
    by (cases "serializeTelemetryBuffer fp outfile s")
  from serializeTelemetryBuffer_state [of fp outfile s] st
  have "telemetry_active s' = telemetry_active s" "beginningEpoch s' = beginningEpoch s"
    by simp_all
  with "6.IH" [OF st [symmetric] refl] st show ?case
    by simp
qed

lemma wallClockTime_eq:
  "(tv_sec endTime - tv_sec startTime) * 1000000000 + (tv_nsec endTime - tv_nsec startTime)
     = timespec_nanoseconds endTime - timespec_nanoseconds startTime"
  by (simp add: timespec_nanoseconds_def algebra_simps)

lemma calibrateTSC_eq:
  "calibrateTSC fp outfile s =
     s\<lparr>ticksPerSecond :=
          double_mul fp
            (double_div fp
               (u64_to_double fp
                  (tsc_source s (length (hw_trace s) + 4) - tsc_source s (length (hw_trace s) + 1)))
               (u64_to_double fp
                  (timespec_nanoseconds (clock_source s (length (hw_trace s) + 3))
                     - timespec_nanoseconds (clock_source s (length (hw_trace s))))))
            double_1e9,
        hw_trace := hw_trace s @ [ClockGettime, Rdtscp, Sleep 1, ClockGettime, Rdtscp]\<rparr>"
  by (simp add: calibrateTSC_def clock_gettime_def READ_TSC_def sleep_def Let_def timespec_nanoseconds_def
      algebra_simps eval_nat_numeral)

lemma double_1e9_decoded:
  "drop_bit 52 double_1e9 = 1052 \<and>
   (2 ^ 52 + unat (take_bit 52 double_1e9)) * 2 ^ 29 = 1000000000 * 2 ^ 52"
  by (simp add: double_1e9_def)

lemma initTelemetry_fields:
  "telemetry_active (initTelemetry fp outfile s) = 1"
  "intervalIDCounter (initTelemetry fp outfile s) = intervalIDCounter s"
  "beginningEpoch (initTelemetry fp outfile s) = tsc_source s (length (hw_trace s) + 5)"
  "lastSerializedIndex (initTelemetry fp outfile s) = lastSerializedIndex s"
  "recordBufferIndex (initTelemetry fp outfile s)
     = ((recordBufferIndex s + 1) mod RECORD_BUFFER_SIZE + 1) mod RECORD_BUFFER_SIZE"
  by (simp_all add: initTelemetry_def calibrateTSC_eq newRecord_eq READ_TSC_def assign_record_def Let_def
      eval_nat_numeral)

lemma initTelemetry_machine:
  "hw_trace (initTelemetry fp outfile s) =
     hw_trace s @ [ClockGettime, Rdtscp, Sleep 1, ClockGettime, Rdtscp, Rdtscp]"
  "tsc_source (initTelemetry fp outfile s) = tsc_source s"
  "clock_source (initTelemetry fp outfile s) = clock_source s"
  by (simp_all add: initTelemetry_def calibrateTSC_eq newRecord_eq READ_TSC_def assign_record_def Let_def)

lemma initTelemetry_recordBuffer:
  "recordBuffer (initTelemetry fp outfile s) =
     (recordBuffer s)
       (unat (recordBufferIndex s) :=
          (recordBuffer s (unat (recordBufferIndex s)))
            \<lparr>calibration_ticksPerSecond := ticksPerSecond (initTelemetry fp outfile s),
             recordType := Calibration\<rparr>,
        unat ((recordBufferIndex s + 1) mod RECORD_BUFFER_SIZE) :=
          (recordBuffer s (unat ((recordBufferIndex s + 1) mod RECORD_BUFFER_SIZE)))
            \<lparr>epoch_time := beginningEpoch (initTelemetry fp outfile s),
             recordType := Epoch\<rparr>)"
  using next_index_neq [of "recordBufferIndex s"]
  by (simp add: initTelemetry_def calibrateTSC_eq newRecord_eq READ_TSC_def assign_record_def Let_def)

lemma run_calls_ids:
  assumes "telemetry_active s \<noteq> 0"
  shows "fst (run_calls fp calls outfile s) =
           map (\<lambda>k. intervalIDCounter s + of_nat k) [0..<count_startInterval calls]"
  using assms
proof (induction fp calls outfile s rule: run_calls.induct)
  case (1 fp outfile s)
  show ?case by simp
next
  case (2 fp tid description calls outfile s)
  then show ?case by (simp add: takeTimeStamp_frame)
next
  case (3 fp tid description calls outfile s)
  obtain intervalID s' where st: "startInterval tid description s = (intervalID, s')"
    by (cases "startInterval tid description s")
  from startInterval_frame [of tid description s] startInterval_active [OF "3.prems", of tid description] st
  have s': "telemetry_active s' = telemetry_active s" "intervalID = intervalIDCounter s"
      "intervalIDCounter s' = intervalIDCounter s + 1"
    by simp_all
  let ?n = "count_startInterval calls"
  from "3.IH" [OF st [symmetric] refl] s' "3.prems"
  have "fst (run_calls fp calls outfile s') = map (\<lambda>k. intervalIDCounter s + 1 + of_nat k) [0..<?n]"
    by simp
  then have "fst (run_calls fp (CallStartInterval tid description # calls) outfile s) =
      intervalIDCounter s # map (\<lambda>k. intervalIDCounter s + 1 + of_nat k) [0..<?n]"
    using st s' by (auto split: prod.split)
  also have "\<dots> = map (\<lambda>k. intervalIDCounter s + of_nat k) (0 # map Suc [0..<?n])"
    by (simp add: comp_def add.assoc)
  also have "0 # map Suc [0..<?n] = [0..<Suc ?n]"
    by (simp add: upt_conv_Cons map_Suc_upt del: upt_Suc)
  finally show ?case by simp
next
  case (4 fp tid intervalID description calls outfile s)
  then show ?case by (simp add: stopInterval_frame)
next
  case (5 fp tid intervalID description calls outfile s)
  then show ?case by (simp add: annotateInterval_frame)
next
  case (6 fp calls outfile s)
  obtain outfile' s' where st: "serializeTelemetryBuffer fp outfile s = (outfile', s')"
    by (cases "serializeTelemetryBuffer fp outfile s")
  from serializeTelemetryBuffer_state [of fp outfile s] st
  have "telemetry_active s' = telemetry_active s" "intervalIDCounter s' = intervalIDCounter s"
    by simp_all
  with "6.IH" [OF st [symmetric] refl] st "6.prems" show ?case
    by simp
qed

lemma consecutive_ids_increasing:
  fixes c :: u32
  assumes "unat c + n \<le> 2 ^ 32"
  shows "sorted_wrt (<) (map (\<lambda>k. c + of_nat k) [0..<n])"
proof -
  have val: "unat (c + of_nat k) = unat c + k" if "k < n" for k
  proof -
    from that assms have "unat c + k < 2 ^ 32" by simp
    moreover from this have "k < 2 ^ 32" by simp
    ultimately show ?thesis
      by (simp add: unat_word_ariths unat_of_nat)
  qed
  have "sorted_wrt (\<lambda>i j. c + of_nat i < c + of_nat j) [0..<n]"
  proof (rule sorted_wrt_mono_rel [where P = "(<)"])
    fix i j
    assume "i \<in> set [0..<n]" "j \<in> set [0..<n]" "i < j"
    then show "c + of_nat i < c + of_nat j"
      by (simp add: word_less_nat_alt val)
  next
    show "sorted_wrt (<) [0..<n]"
      by simp
  qed
  then show ?thesis
    by (simp add: sorted_wrt_map)
qed

lemma replicate_numeral: "replicate (numeral k) x = x # replicate (pred_numeral k) x"
  by (simp add: numeral_eq_Suc)

lemmas printf_eval = printf_x_def printf_ld_def printf_d_def printf_s_def pad_left_def
  signed_dec_def hex_digits.simps dec_digits.simps digit_char_def replicate_numeral

lemma hex_digits_length:
  "n < 16 ^ k \<Longrightarrow> 0 < k \<Longrightarrow> length (hex_digits n) \<le> k"
proof (induction n arbitrary: k rule: hex_digits.induct)
  case (1 n)
  show ?case
  proof (cases "n < 16")
    case True
    with "1.prems" show ?thesis
      by (subst hex_digits.simps) simp
  next
    case False
    obtain j where k: "k = Suc j"
      using "1.prems"(2) by (cases k) simp_all
    from False "1.prems"(1) have "0 < j"
      unfolding k by (cases j) simp_all
    moreover from "1.prems"(1) have "n div 16 < 16 ^ j"
      unfolding k by (simp add: less_mult_imp_div_less mult.commute)
    ultimately have "length (hex_digits (n div 16)) \<le> j"
      using "1.IH" [OF False] by simp
    with False show ?thesis
      unfolding k by (subst hex_digits.simps) simp
  qed
qed

lemma length_printf_x_10: "length (printf_x 10 v) = 10"
proof -
  have "unat v < 2 ^ 32"
    using unsigned_less [of v] by simp
  then have "unat v < 16 ^ 8"
    by simp
  then have "length (hex_digits (unat v)) \<le> 8"
    by (rule hex_digits_length) simp
  then show ?thesis
    by (simp add: printf_x_def pad_left_def)
qed

lemma printf_ld_difference:
  fixes t epoch :: u64
  assumes "unat epoch \<le> unat t" and "unat t - unat epoch < 2 ^ 63"
  shows "printf_ld width (t - epoch) = pad_left width (dec_digits (unat t - unat epoch))"
proof -
  from assms(1) have "epoch \<le> t"
    by (simp add: word_le_nat_alt)
  then have u: "unat (t - epoch) = unat t - unat epoch"
    by (rule unat_sub)
  have "uint (t - epoch) = int (unat t - unat epoch)"
    using u by (simp add: uint_nat)
  moreover have "sint (t - epoch) = signed_take_bit 63 (uint (t - epoch))"
    by (simp add: sint_uint)
  moreover have "signed_take_bit 63 (int (unat t - unat epoch)) = int (unat t - unat epoch)"
    using assms(2) by (intro signed_take_bit_int_eq_self) simp_all
  ultimately have "sint (t - epoch) = int (unat t - unat epoch)"
    by simp
  then show ?thesis
    by (simp add: printf_ld_def signed_dec_def)
qed

lemma serializeRecord_eqs:
  "recordType r = Calibration \<Longrightarrow> serializeRecord fp s r =
     printf_x 10 (ucast (threadID r)) @ '' '' @ ''Calibration: ''
       @ printf_f fp (calibration_ticksPerSecond r) @ '' ticks per second'' @ newline"
  "recordType r = Epoch \<Longrightarrow> serializeRecord fp s r =
     printf_x 10 (ucast (threadID r)) @ '' '' @ ''Epoch counter: ''
       @ printf_ld 0 (epoch_time r) @ newline"
  "recordType r = TimeStamp \<Longrightarrow> serializeRecord fp s r =
     printf_x 10 (ucast (threadID r)) @ '' '' @ printf_ld 15 (timeStamp_time r - beginningEpoch s)
       @ '' -|- Time stamp:     '' @ dquote @ timeStamp_description r @ dquote @ newline"
  "recordType r = IntervalStart \<Longrightarrow> serializeRecord fp s r =
     printf_x 10 (ucast (threadID r)) @ '' '' @ printf_ld 15 (interval_time r - beginningEpoch s)
       @ '' (-  Interval start: '' @ dquote @ interval_description r @ dquote
       @ '' ('' @ printf_d (interval_intervalID r) @ '')'' @ newline"
  "recordType r = IntervalEnd \<Longrightarrow> serializeRecord fp s r =
     printf_x 10 (ucast (threadID r)) @ '' '' @ printf_ld 15 (interval_time r - beginningEpoch s)
       @ ''  -) Interval stop:  '' @ dquote @ interval_description r @ dquote
       @ '' ('' @ printf_d (interval_intervalID r) @ '')'' @ newline"
  "recordType r = IntervalAnnotation \<Longrightarrow> serializeRecord fp s r =
     printf_x 10 (ucast (threadID r)) @ '' '' @ replicate 15 CHR '' ''
       @ '' ??? Annotation:     '' @ dquote @ annotation_description r @ dquote
       @ '' ('' @ printf_d (annotation_intervalID r) @ '')'' @ newline"
  by (simp_all add: serializeRecord_def printf_s_def pad_left_def eval_nat_numeral replicate_append_same)

lemma serializeRecord_threadID_field:
  "take 11 (serializeRecord fp st r) = printf_x 10 (ucast (threadID r)) @ '' ''"
  by (simp add: serializeRecord_def length_printf_x_10)

lemma serializeRecord_tagged_member:
  "serializeRecord fp s (tagged_member r) = serializeRecord fp s r"
  by (cases "recordType r") (simp_all add: serializeRecord_def tagged_member_def)


lemma startInterval_active_eq:
  assumes "telemetry_active s \<noteq> 0"
  shows "startInterval tid description s =
     (intervalIDCounter s,
      s\<lparr>recordBufferIndex := (recordBufferIndex s + 1) mod RECORD_BUFFER_SIZE,
        intervalIDCounter := intervalIDCounter s + 1,
        hw_trace := hw_trace s @ [Rdtscp],
        recordBuffer := (recordBuffer s)
          (unat (recordBufferIndex s) :=
             (recordBuffer s (unat (recordBufferIndex s)))
               \<lparr>interval_time := tsc_source s (length (hw_trace s)), recordType := IntervalStart,
                threadID := tid, interval_intervalID := intervalIDCounter s,
                interval_description := description\<rparr>)\<rparr>)"
  using assms by (simp add: api_defs)

lemma serializeRecord_threadID_low_bits:
  assumes "(ucast t :: u32) = ucast t'"
  shows "serializeRecord fp st (r\<lparr>threadID := t\<rparr>) = serializeRecord fp st (r\<lparr>threadID := t'\<rparr>)"
  using assms by (cases "recordType r") (simp_all add: serializeRecord_def)

section \<open>Drain passes\<close>

text \<open>
  Claim C1. A drain pass \<open>serializeTelemetryBuffer\<close> takes \<open>start\<close> from the drain cursor
  \<open>lastSerializedIndex\<close> and \<open>end\<close> from the write cursor \<open>recordBufferIndex\<close>. If
  \<open>end < start\<close> it appends to the sink the lines of the slots \<open>start, ..., 9999\<close> and
  then of the slots \<open>0, ..., end - 1\<close>, each range in ascending order; otherwise it
  appends the lines of the slots \<open>start, ..., end - 1\<close>. Nothing else is written, and the
  only change of the state is that the drain cursor becomes \<open>end\<close>.
\<close>

theorem serializeTelemetryBuffer_ranges:
  "serializeTelemetryBuffer fp outfile s =
     (outfile @ concat (map (\<lambda>n. serializeRecord fp s (recordBuffer s n))
        (if recordBufferIndex s < lastSerializedIndex s
         then [unat (lastSerializedIndex s)..<10000] @ [0..<unat (recordBufferIndex s)]
         else [unat (lastSerializedIndex s)..<unat (recordBufferIndex s)])),
      s\<lparr>lastSerializedIndex := recordBufferIndex s\<rparr>)"
  by (simp add: serializeTelemetryBuffer_def serializeTelemetryBufferRange_def
      serializeTelemetryBufferRange_loop_eq unat_RECORD_BUFFER_SIZE Let_def)

theorem serializeTelemetryBuffer_ranges_witness:
  "fst (serializeTelemetryBuffer example_fpu [] example_wrapped) =
     ''      270f Calibration: 0 ticks per second'' @ [CHR 0x0A]
       @ ''         0 Calibration: 0 ticks per second'' @ [CHR 0x0A]
       @ ''         1 Calibration: 0 ticks per second'' @ [CHR 0x0A] \<and>
   lastSerializedIndex (snd (serializeTelemetryBuffer example_fpu [] example_wrapped)) = 2"
proof -
  have cur: "recordBufferIndex example_wrapped = 2" "lastSerializedIndex example_wrapped = 9999"
    by (simp_all add: example_wrapped_def)
  have slots: "[9999..<10000] = [9999 :: nat]" "[0..<2] = [0, 1 :: nat]"
    by (simp_all add: upt_rec)
  have lines:
    "serializeRecord example_fpu example_wrapped (recordBuffer example_wrapped 9999) =
       ''      270f Calibration: 0 ticks per second'' @ [CHR 0x0A]"
    "serializeRecord example_fpu example_wrapped (recordBuffer example_wrapped 0) =
       ''         0 Calibration: 0 ticks per second'' @ [CHR 0x0A]"
    "serializeRecord example_fpu example_wrapped (recordBuffer example_wrapped (Suc 0)) =
       ''         1 Calibration: 0 ticks per second'' @ [CHR 0x0A]"
    by (simp_all add: serializeRecord_def example_wrapped_def zero_record_def example_fpu_def
        printf_eval newline_def)
  from serializeTelemetryBuffer_ranges [of example_fpu "[]" example_wrapped]
  show ?thesis
    unfolding cur by (simp add: slots lines)
qed

section \<open>Slot allocation wraps around\<close>

text \<open>
  Claim C2. A call of \<open>newRecord\<close> returns the current value \<open>i\<close> of the write cursor
  \<open>recordBufferIndex\<close> and sets the cursor to \<open>(i + 1) mod RECORD_BUFFER_SIZE\<close>, where
  the capacity is 10000, and changes nothing else. The cursor starts at 0 and is below
  the capacity after every call. From a cursor below the capacity, the \<open>k\<close>-th call in a
  row returns \<open>(i + k) mod 10000\<close>, so call \<open>k + 10000\<close> returns the index call \<open>k\<close>
  returned: the slot is handed out again.
\<close>

theorem newRecord_cursor_cycle:
  "newRecord s =
     (recordBufferIndex s,
      s\<lparr>recordBufferIndex := (recordBufferIndex s + 1) mod RECORD_BUFFER_SIZE\<rparr>) \<and>
   unat RECORD_BUFFER_SIZE = 10000 \<and>
   recordBufferIndex (initial_state tsc clock) = 0 \<and>
   recordBufferIndex (snd (newRecord s)) < RECORD_BUFFER_SIZE \<and>
   (recordBufferIndex s < RECORD_BUFFER_SIZE \<longrightarrow>
      unat (recordBufferIndex (snd (newRecord s))) = (unat (recordBufferIndex s) + 1) mod 10000 \<and>
      (\<forall>n. fst (newRecords n s) =
             map (\<lambda>k. of_nat ((unat (recordBufferIndex s) + k) mod 10000)) [0..<n]) \<and>
      (\<forall>k n. k + 10000 < n \<longrightarrow>
             fst (newRecords n s) ! (k + 10000) = fst (newRecords n s) ! k))"
proof (intro conjI impI allI)
  show "newRecord s =
     (recordBufferIndex s,
      s\<lparr>recordBufferIndex := (recordBufferIndex s + 1) mod RECORD_BUFFER_SIZE\<rparr>)"
    by (rule newRecord_eq)
  show "unat RECORD_BUFFER_SIZE = 10000"
    by (rule unat_RECORD_BUFFER_SIZE)
  show "recordBufferIndex (initial_state tsc clock) = 0"
    by (simp add: initial_state_def)
  show "recordBufferIndex (snd (newRecord s)) < RECORD_BUFFER_SIZE"
    by (simp add: newRecord_eq next_index_less)
next
  assume inb: "recordBufferIndex s < RECORD_BUFFER_SIZE"
  then show "unat (recordBufferIndex (snd (newRecord s))) = (unat (recordBufferIndex s) + 1) mod 10000"
    by (simp add: newRecord_eq next_index_unat)
next
  fix n
  assume "recordBufferIndex s < RECORD_BUFFER_SIZE"
  then show "fst (newRecords n s) =
      map (\<lambda>k. of_nat ((unat (recordBufferIndex s) + k) mod 10000)) [0..<n]"
    by (rule newRecords_indices)
next
  fix k n :: nat
  assume inb: "recordBufferIndex s < RECORD_BUFFER_SIZE" and kn: "k + 10000 < n"
  then have "k < n"
    by simp
  with kn show "fst (newRecords n s) ! (k + 10000) = fst (newRecords n s) ! k"
    by (simp add: newRecords_indices [OF inb] add.assoc [symmetric])
qed

theorem newRecord_cursor_cycle_witness:
  "recordBufferIndex ((initial_state example_tsc example_clock)\<lparr>recordBufferIndex := 9999\<rparr>)
     < RECORD_BUFFER_SIZE \<and>
   fst (newRecord ((initial_state example_tsc example_clock)\<lparr>recordBufferIndex := 9999\<rparr>)) = 9999 \<and>
   recordBufferIndex
     (snd (newRecord ((initial_state example_tsc example_clock)\<lparr>recordBufferIndex := 9999\<rparr>))) = 0 \<and>
   fst (newRecords 10003 ((initial_state example_tsc example_clock)\<lparr>recordBufferIndex := 9999\<rparr>))
     ! (2 + 10000) = 1 \<and>
   fst (newRecords 10003 ((initial_state example_tsc example_clock)\<lparr>recordBufferIndex := 9999\<rparr>))
     ! 2 = 1"
proof -
  let ?s = "(initial_state example_tsc example_clock)\<lparr>recordBufferIndex := 9999\<rparr>"
  have inb: "recordBufferIndex ?s < RECORD_BUFFER_SIZE"
    by (simp add: RECORD_BUFFER_SIZE_def)
  note t = newRecord_cursor_cycle [of ?s]
  from t have a: "newRecord ?s = (9999, ?s\<lparr>recordBufferIndex := (9999 + 1) mod RECORD_BUFFER_SIZE\<rparr>)"
    by simp
  from t inb have b: "fst (newRecords 10003 ?s) =
      map (\<lambda>k. of_nat ((unat (recordBufferIndex ?s) + k) mod 10000)) [0..<10003]"
    by blast
  from t inb have c: "fst (newRecords 10003 ?s) ! (2 + 10000) = fst (newRecords 10003 ?s) ! 2"
    by simp
  have d: "fst (newRecords 10003 ?s) ! 2 = 1"
    by (simp add: b)
  show ?thesis
    using inb a c d by (simp add: RECORD_BUFFER_SIZE_def)
qed

section \<open>The disabled state\<close>

text \<open>
  Claim C4. While \<open>telemetry_active\<close> is 0 every call of the event API returns the state
  it was given: the buffer, the write cursor, the interval counter and the trace of
  cycle-counter reads are unchanged, and \<open>startInterval\<close> returns the fixed value 0.
\<close>

theorem inactive_calls_are_noops:
  assumes "telemetry_active s = 0"
  shows "takeTimeStamp tid description s = s \<and>
         startInterval tid description s = (0, s) \<and>
         stopInterval tid intervalID description s = s \<and>
         annotateInterval tid intervalID description s = s"
  using assms
  by (simp add: takeTimeStamp_def startInterval_def stopInterval_def annotateInterval_def)

theorem inactive_calls_are_noops_witness:
  "telemetry_active (initial_state example_tsc example_clock) = 0 \<and>
   takeTimeStamp 7 ''gc'' (initial_state example_tsc example_clock)
     = initial_state example_tsc example_clock \<and>
   startInterval 7 ''gc'' (initial_state example_tsc example_clock)
     = (0, initial_state example_tsc example_clock) \<and>
   stopInterval 7 3 ''gc'' (initial_state example_tsc example_clock)
     = initial_state example_tsc example_clock \<and>
   annotateInterval 7 3 ''gc'' (initial_state example_tsc example_clock)
     = initial_state example_tsc example_clock"
proof -
  have "telemetry_active (initial_state example_tsc example_clock) = 0"
    by (simp add: initial_state_def)
  from this inactive_calls_are_noops [OF this, of 7 "''gc''" 3] show ?thesis
    by simp
qed

section \<open>Interval identifiers\<close>

text \<open>
  Claim C5. In a run of calls made while \<open>telemetry_active\<close> is not 0, the identifiers
  returned by the \<open>startInterval\<close> calls are the consecutive values of the counter,
  starting from its value before the run. As long as the 32-bit counter does not
  overflow, they are strictly increasing, hence pairwise different.
\<close>

theorem startInterval_ids_increasing:
  assumes "telemetry_active s \<noteq> 0"
    and "unat (intervalIDCounter s) + count_startInterval calls \<le> 2 ^ 32"
  shows "fst (run_calls fp calls outfile s) =
           map (\<lambda>k. intervalIDCounter s + of_nat k) [0..<count_startInterval calls] \<and>
         sorted_wrt (<) (fst (run_calls fp calls outfile s)) \<and>
         distinct (fst (run_calls fp calls outfile s))"
proof -
  have ids: "fst (run_calls fp calls outfile s) =
           map (\<lambda>k. intervalIDCounter s + of_nat k) [0..<count_startInterval calls]"
    using assms(1) by (rule run_calls_ids)
  moreover have inc: "sorted_wrt (<) (fst (run_calls fp calls outfile s))"
    unfolding ids using assms(2) by (rule consecutive_ids_increasing)
  moreover from inc have "distinct (fst (run_calls fp calls outfile s))"
    by (simp add: strict_sorted_iff)
  ultimately show ?thesis by blast
qed

theorem startInterval_ids_increasing_witness:
  "telemetry_active (initTelemetry example_fpu [] (initial_state example_tsc example_clock)) \<noteq> 0 \<and>
   fst (run_calls example_fpu
          [CallStartInterval 1 ''A'', CallTakeTimeStamp 1 ''t'', CallStartInterval 2 ''B'',
           CallStopInterval 2 1 ''B'', CallSerializeTelemetryBuffer, CallStartInterval 1 ''C'']
          [] (initTelemetry example_fpu [] (initial_state example_tsc example_clock)))
     = [0, 1, 2] \<and>
   sorted_wrt (<) (fst (run_calls example_fpu
          [CallStartInterval 1 ''A'', CallTakeTimeStamp 1 ''t'', CallStartInterval 2 ''B'',
           CallStopInterval 2 1 ''B'', CallSerializeTelemetryBuffer, CallStartInterval 1 ''C'']
          [] (initTelemetry example_fpu [] (initial_state example_tsc example_clock)))) \<and>
   distinct (fst (run_calls example_fpu
          [CallStartInterval 1 ''A'', CallTakeTimeStamp 1 ''t'', CallStartInterval 2 ''B'',
           CallStopInterval 2 1 ''B'', CallSerializeTelemetryBuffer, CallStartInterval 1 ''C'']
          [] (initTelemetry example_fpu [] (initial_state example_tsc example_clock))))"
proof -
  let ?s = "initTelemetry example_fpu [] (initial_state example_tsc example_clock)"
  let ?calls = "[CallStartInterval 1 ''A'', CallTakeTimeStamp 1 ''t'', CallStartInterval 2 ''B'',
           CallStopInterval 2 1 ''B'', CallSerializeTelemetryBuffer, CallStartInterval 1 ''C'']"
  have active: "telemetry_active ?s \<noteq> 0"
    by (simp add: initTelemetry_fields)
  have counter: "intervalIDCounter ?s = 0"
    by (simp add: initTelemetry_fields initial_state_def)
  have n: "count_startInterval ?calls = 3"
    by simp
  have room: "unat (intervalIDCounter ?s) + count_startInterval ?calls \<le> 2 ^ 32"
    by (simp add: counter)
  have "[0..<3] = [0, 1, 2::nat]"
    by (simp add: upt_rec)
  with startInterval_ids_increasing [OF active room, of example_fpu "[]"] active show ?thesis
    by (simp add: counter)
qed

section \<open>The calibration factor\<close>

text \<open>
  Claim C6. \<open>calibrateTSC\<close> asks the machine for exactly five things, in this order: the
  monotonic clock, the cycle counter, a sleep of 1 second, the clock, the cycle counter.
  With \<open>cycleDelta\<close> the difference of the two counter readings and \<open>wallNanosDelta\<close> the
  difference of the two clock readings in nanoseconds (both in 64-bit arithmetic), the
  value it stores in \<open>ticksPerSecond\<close> is \<open>(double) cycleDelta / (double) wallNanosDelta\<close>
  multiplied by the constant \<open>1000000000.0\<close>, whose bit pattern decodes to
  \<open>(1 + m / 2^52) * 2^29 = 10^9\<close>. Nothing is checked and nothing else in the state changes:
  the function is total and has no other result.
\<close>

theorem calibrateTSC_ticks_per_second:
  "let n = length (hw_trace s);
       startTime = clock_source s n;
       startTsc = tsc_source s (n + 1);
       endTime = clock_source s (n + 3);
       endTsc = tsc_source s (n + 4);
       cycleDelta = endTsc - startTsc;
       wallNanosDelta = timespec_nanoseconds endTime - timespec_nanoseconds startTime
   in hw_trace (calibrateTSC fp outfile s)
        = hw_trace s @ [ClockGettime, Rdtscp, Sleep 1, ClockGettime, Rdtscp] \<and>
      ticksPerSecond (calibrateTSC fp outfile s)
        = double_mul fp
            (double_div fp (u64_to_double fp cycleDelta) (u64_to_double fp wallNanosDelta))
            double_1e9 \<and>
      calibrateTSC fp outfile s
        = s\<lparr>ticksPerSecond := ticksPerSecond (calibrateTSC fp outfile s),
             hw_trace := hw_trace (calibrateTSC fp outfile s)\<rparr> \<and>
      drop_bit 52 double_1e9 = 1052 \<and>
      (2 ^ 52 + unat (take_bit 52 double_1e9)) * 2 ^ (1052 - 1023) = 1000000000 * 2 ^ 52"
  using double_1e9_decoded by (simp add: calibrateTSC_eq Let_def)

section \<open>Cycle counts relative to the epoch\<close>

text \<open>
  Claim C7. \<open>initTelemetry\<close> sets \<open>beginningEpoch\<close> to the cycle counter reading it stores
  in the Epoch record, and no call of the event API and no drain pass changes it. In
  every state of a run after start-up, the line of a TimeStamp, IntervalStart or
  IntervalEnd record carries, after the thread id field, the \<open>%15ld\<close> rendering of the
  record's cycle count minus that epoch (a 64-bit difference read as signed); when the
  count is not below the epoch and the difference is below \<open>2^63\<close>, this is the decimal
  numeral of the difference of the two counts as natural numbers.
\<close>

theorem cycle_counts_relative_to_epoch:
  "let s = snd (snd (run_calls fp calls outfile' (initTelemetry fp outfile s0)));
       epoch = tsc_source s0 (length (hw_trace s0) + 5)
   in beginningEpoch (initTelemetry fp outfile s0) = epoch \<and>
      beginningEpoch s = epoch \<and>
      (recordType r = TimeStamp \<longrightarrow>
         serializeRecord fp s r =
           printf_x 10 (ucast (threadID r)) @ '' '' @ printf_ld 15 (timeStamp_time r - epoch)
             @ '' -|- Time stamp:     '' @ dquote @ timeStamp_description r @ dquote @ newline) \<and>
      (recordType r = IntervalStart \<longrightarrow>
         serializeRecord fp s r =
           printf_x 10 (ucast (threadID r)) @ '' '' @ printf_ld 15 (interval_time r - epoch)
             @ '' (-  Interval start: '' @ dquote @ interval_description r @ dquote
             @ '' ('' @ printf_d (interval_intervalID r) @ '')'' @ newline) \<and>
      (recordType r = IntervalEnd \<longrightarrow>
         serializeRecord fp s r =
           printf_x 10 (ucast (threadID r)) @ '' '' @ printf_ld 15 (interval_time r - epoch)
             @ ''  -) Interval stop:  '' @ dquote @ interval_description r @ dquote
             @ '' ('' @ printf_d (interval_intervalID r) @ '')'' @ newline) \<and>
      (\<forall>t. unat epoch \<le> unat t \<and> unat t - unat epoch < 2 ^ 63 \<longrightarrow>
         printf_ld 15 (t - epoch) = pad_left 15 (dec_digits (unat t - unat epoch)))"
proof -
  let ?s1 = "initTelemetry fp outfile s0"
  let ?s = "snd (snd (run_calls fp calls outfile' ?s1))"
  let ?epoch = "tsc_source s0 (length (hw_trace s0) + 5)"
  have init: "beginningEpoch ?s1 = ?epoch"
    by (simp add: initTelemetry_fields)
  have run: "beginningEpoch ?s = ?epoch"
    using run_calls_frame [of fp calls outfile' ?s1] init by simp
  have nat_reading: "printf_ld 15 (t - ?epoch) = pad_left 15 (dec_digits (unat t - unat ?epoch))"
    if "unat ?epoch \<le> unat t \<and> unat t - unat ?epoch < 2 ^ 63" for t
    using that by (simp add: printf_ld_difference)
  show ?thesis
    unfolding Let_def
    using init run nat_reading by (simp add: serializeRecord_eqs)
qed

theorem cycle_counts_relative_to_epoch_witness:
  "recordType
     (recordBuffer
        (snd (snd (run_calls example_fpu [CallTakeTimeStamp 7 ''gc''] []
           (initTelemetry example_fpu [] (initial_state example_tsc example_clock))))) 2)
     = TimeStamp \<and>
   timeStamp_time
     (recordBuffer
        (snd (snd (run_calls example_fpu [CallTakeTimeStamp 7 ''gc''] []
           (initTelemetry example_fpu [] (initial_state example_tsc example_clock))))) 2)
     = 1060 \<and>
   beginningEpoch
     (snd (snd (run_calls example_fpu [CallTakeTimeStamp 7 ''gc''] []
        (initTelemetry example_fpu [] (initial_state example_tsc example_clock)))))
     = 1050 \<and>
   serializeRecord example_fpu
     (snd (snd (run_calls example_fpu [CallTakeTimeStamp 7 ''gc''] []
        (initTelemetry example_fpu [] (initial_state example_tsc example_clock)))))
     (recordBuffer
        (snd (snd (run_calls example_fpu [CallTakeTimeStamp 7 ''gc''] []
           (initTelemetry example_fpu [] (initial_state example_tsc example_clock))))) 2)
     = ''         7              10 -|- Time stamp:     '' @ [CHR 0x22] @ ''gc'' @ [CHR 0x22, CHR 0x0A]"
proof -
  let ?boot = "initial_state example_tsc example_clock"
  let ?up = "initTelemetry example_fpu [] ?boot"
  let ?run = "takeTimeStamp 7 ''gc'' ?up"
  have active: "telemetry_active ?up \<noteq> 0"
    by (simp add: initTelemetry_fields)
  have idx: "recordBufferIndex ?up = 2"
    by (simp add: initTelemetry_fields initial_state_def RECORD_BUFFER_SIZE_def)
  have tr: "length (hw_trace ?up) = 6"
    by (simp add: initTelemetry_machine initial_state_def)
  have src: "tsc_source ?up = example_tsc"
    by (simp add: initTelemetry_machine initial_state_def)
  have s: "snd (snd (run_calls example_fpu [CallTakeTimeStamp 7 ''gc''] [] ?up)) = ?run"
    by simp
  have r: "recordBuffer ?run 2 = (recordBuffer ?up 2)
      \<lparr>timeStamp_time := 1060, recordType := TimeStamp, threadID := 7, timeStamp_description := ''gc''\<rparr>"
    unfolding takeTimeStamp_active [OF active]
    by (simp add: idx tr src example_tsc_def)
  have epoch: "example_tsc (length (hw_trace ?boot) + 5) = 1050"
    by (simp add: initial_state_def example_tsc_def)
  have src0: "tsc_source ?boot = example_tsc"
    by (simp add: initial_state_def)
  have kind: "recordType (recordBuffer ?run 2) = TimeStamp"
    by (simp add: r)
  from cycle_counts_relative_to_epoch
    [of example_fpu "[CallTakeTimeStamp 7 ''gc'']" "[]" "[]" ?boot "recordBuffer ?run 2"]
  have "beginningEpoch ?run = 1050 \<and>
        serializeRecord example_fpu ?run (recordBuffer ?run 2) =
          printf_x 10 (ucast (threadID (recordBuffer ?run 2))) @ '' ''
            @ printf_ld 15 (timeStamp_time (recordBuffer ?run 2) - 1050)
            @ '' -|- Time stamp:     '' @ dquote @ timeStamp_description (recordBuffer ?run 2)
            @ dquote @ newline"
    unfolding Let_def s src0 epoch using kind by blast
  then have "beginningEpoch ?run = 1050 \<and>
        serializeRecord example_fpu ?run (recordBuffer ?run 2) =
          ''         7'' @ '' '' @ ''             10''
            @ '' -|- Time stamp:     '' @ dquote @ ''gc'' @ dquote @ newline"
    by (simp add: r printf_eval)
  then show ?thesis
    unfolding s by (simp add: r dquote_def newline_def)
qed

section \<open>Annotations\<close>

text \<open>
  An active \<open>annotateInterval\<close> reads no cycle counter (the trace of the machine is
  unchanged, and the result does not depend on what the counter would read) and writes
  only the kind, the thread id, the interval id and the description of its slot. The
  line of an IntervalAnnotation record is the thread id field, a blank, a time field of
  15 blanks, the annotation marker, the quoted description and the interval id in
  parentheses, in this order. The line of every record, of whatever kind, starts with
  the 10 characters of the thread id field and a blank.
\<close>

lemma annotateInterval_line:
  assumes "telemetry_active s \<noteq> 0"
  shows
  "let s' = annotateInterval subject intervalID description s;
       slot = unat (recordBufferIndex s);
       r = recordBuffer s' slot
   in hw_trace s' = hw_trace s \<and>
      r = (recordBuffer s slot)
            \<lparr>recordType := IntervalAnnotation, threadID := subject,
             annotation_intervalID := intervalID, annotation_description := description\<rparr> \<and>
      annotateInterval subject intervalID description (s\<lparr>tsc_source := tsc\<rparr>)
        = s'\<lparr>tsc_source := tsc\<rparr> \<and>
      serializeRecord fp s' r =
        printf_x 10 (ucast subject) @ '' '' @ replicate 15 CHR '' ''
          @ '' ??? Annotation:     '' @ dquote @ description @ dquote
          @ '' ('' @ printf_d intervalID @ '')'' @ newline \<and>
      (\<forall>st r'. recordType r' = IntervalAnnotation \<longrightarrow>
         serializeRecord fp st r' =
           printf_x 10 (ucast (threadID r')) @ '' '' @ replicate 15 CHR '' ''
             @ '' ??? Annotation:     '' @ dquote @ annotation_description r' @ dquote
             @ '' ('' @ printf_d (annotation_intervalID r') @ '')'' @ newline) \<and>
      (\<forall>st r'. take 11 (serializeRecord fp st r') = printf_x 10 (ucast (threadID r')) @ '' '')"
proof -
  let ?s' = "annotateInterval subject intervalID description s"
  let ?slot = "unat (recordBufferIndex s)"
  have s': "?s' =
     s\<lparr>recordBufferIndex := (recordBufferIndex s + 1) mod RECORD_BUFFER_SIZE,
       recordBuffer := (recordBuffer s)
         (?slot := (recordBuffer s ?slot)
              \<lparr>recordType := IntervalAnnotation, threadID := subject,
               annotation_intervalID := intervalID, annotation_description := description\<rparr>)\<rparr>"
    using assms by (rule annotateInterval_active)
  have trace: "hw_trace ?s' = hw_trace s"
    by (simp add: s')
  have r: "recordBuffer ?s' ?slot = (recordBuffer s ?slot)
            \<lparr>recordType := IntervalAnnotation, threadID := subject,
             annotation_intervalID := intervalID, annotation_description := description\<rparr>"
    by (simp add: s')
  have indep: "annotateInterval subject intervalID description (s\<lparr>tsc_source := tsc\<rparr>)
        = ?s'\<lparr>tsc_source := tsc\<rparr>"
    using assms by (simp add: annotateInterval_active)
  have line: "serializeRecord fp ?s' (recordBuffer ?s' ?slot) =
        printf_x 10 (ucast subject) @ '' '' @ replicate 15 CHR '' ''
          @ '' ??? Annotation:     '' @ dquote @ description @ dquote
          @ '' ('' @ printf_d intervalID @ '')'' @ newline"
    unfolding r by (simp add: serializeRecord_eqs)
  show ?thesis
    unfolding Let_def
    using trace r indep line
    by (simp add: serializeRecord_eqs serializeRecord_threadID_field)
qed

text \<open>
  Claim C8. \<open>annotateInterval\<close> stores no cycle count, and the annotation line has its
  fields in the order thread id field, blank time field, marker, description, interval
  id (\<open>annotateInterval_line\<close>). The thread id field, however, does not hold the thread
  identifier: \<open>serializeTelemetryBufferRange\<close> passes the 64-bit \<open>threadID\<close> to the
  conversion \<open>% 10x\<close>, which reads an \<open>unsigned int\<close>, so only the low 32 bits are
  printed (\<open>serializeRecord_threadID_low_bits\<close>). After start-up, an annotation made for
  the subject \<open>0x100000007\<close> stores that thread id in its record and is rendered with the
  thread id field \<open>7\<close>: the line is the one an annotation for the subject \<open>7\<close> gives.
\<close>

theorem annotateInterval_threadID_truncated:
  "threadID
     (recordBuffer
        (annotateInterval 0x100000007 3 ''note''
           (initTelemetry example_fpu [] (initial_state example_tsc example_clock))) 2)
     = 0x100000007 \<and>
   serializeRecord example_fpu
     (annotateInterval 0x100000007 3 ''note''
        (initTelemetry example_fpu [] (initial_state example_tsc example_clock)))
     (recordBuffer
        (annotateInterval 0x100000007 3 ''note''
           (initTelemetry example_fpu [] (initial_state example_tsc example_clock))) 2)
     = ''         7                 ??? Annotation:     '' @ [CHR 0x22] @ ''note''
         @ [CHR 0x22] @ '' (3)'' @ [CHR 0x0A] \<and>
   threadID
     (recordBuffer
        (annotateInterval 7 3 ''note''
           (initTelemetry example_fpu [] (initial_state example_tsc example_clock))) 2)
     = 7 \<and>
   serializeRecord example_fpu
     (annotateInterval 7 3 ''note''
        (initTelemetry example_fpu [] (initial_state example_tsc example_clock)))
     (recordBuffer
        (annotateInterval 7 3 ''note''
           (initTelemetry example_fpu [] (initial_state example_tsc example_clock))) 2)
     = ''         7                 ??? Annotation:     '' @ [CHR 0x22] @ ''note''
         @ [CHR 0x22] @ '' (3)'' @ [CHR 0x0A]"
proof -
  let ?up = "initTelemetry example_fpu [] (initial_state example_tsc example_clock)"
  have active: "telemetry_active ?up \<noteq> 0"
    by (simp add: initTelemetry_fields)
  have idx: "unat (recordBufferIndex ?up) = 2"
    by (simp add: initTelemetry_fields initial_state_def RECORD_BUFFER_SIZE_def)
  have line: "threadID (recordBuffer (annotateInterval subject 3 ''note'' ?up) 2) = subject \<and>
      serializeRecord example_fpu (annotateInterval subject 3 ''note'' ?up)
          (recordBuffer (annotateInterval subject 3 ''note'' ?up) 2) =
        printf_x 10 (ucast subject) @ '' '' @ replicate 15 CHR '' ''
          @ '' ??? Annotation:     '' @ dquote @ ''note'' @ dquote
          @ '' ('' @ printf_d 3 @ '')'' @ newline" for subject
    using annotateInterval_line [OF active, of subject 3 "''note''" example_tsc example_fpu]
    unfolding Let_def idx by simp
  show ?thesis
    using line [of "0x100000007"] line [of 7]
    by (simp add: printf_eval dquote_def newline_def)
qed

section \<open>The sentinel identifier\<close>

text \<open>
  Claim C9. \<open>startInterval\<close> returns 0 and leaves the state alone when
  \<open>telemetry_active\<close> is 0. An active call returns the value of \<open>intervalIDCounter\<close> and
  adds 1 to it. The counter is 0 at program start and \<open>initTelemetry\<close> leaves it alone, so
  the first \<open>startInterval\<close> call after start-up is granted the identifier 0 from the
  counter: it returns 0, moves the counter to 1 and writes an IntervalStart record with
  the interval id 0 into its slot, and the next call returns 1. The result of the
  disabled call and the first identifier granted are the same value.
\<close>

theorem startInterval_sentinel_is_first_id:
  assumes "telemetry_active s = 0"
  shows
  "let up = initTelemetry fp outfile (initial_state tsc clock);
       slot = unat (recordBufferIndex up);
       first = startInterval tid' description' up;
       second = startInterval tid'' description'' (snd first)
   in startInterval tid description s = (0, s) \<and>
      intervalIDCounter (initial_state tsc clock) = 0 \<and>
      telemetry_active up \<noteq> 0 \<and>
      intervalIDCounter up = 0 \<and>
      fst first = intervalIDCounter up \<and>
      fst first = 0 \<and>
      fst (startInterval tid description s) = fst first \<and>
      intervalIDCounter (snd first) = 1 \<and>
      recordBuffer (snd first) slot =
        (recordBuffer up slot)
          \<lparr>interval_time := tsc_source up (length (hw_trace up)), recordType := IntervalStart,
           threadID := tid', interval_intervalID := 0, interval_description := description'\<rparr> \<and>
      fst second = 1 \<and>
      (\<forall>a. telemetry_active a \<noteq> 0 \<longrightarrow>
         fst (startInterval tid' description' a) = intervalIDCounter a \<and>
         intervalIDCounter (snd (startInterval tid' description' a)) = intervalIDCounter a + 1)"
proof -
  let ?up = "initTelemetry fp outfile (initial_state tsc clock)"
  let ?slot = "unat (recordBufferIndex ?up)"
  let ?first = "startInterval tid' description' ?up"
  let ?second = "startInterval tid'' description'' (snd ?first)"
  have off: "startInterval tid description s = (0, s)"
    using assms by (simp add: startInterval_def)
  have c0: "intervalIDCounter (initial_state tsc clock) = 0"
    by (simp add: initial_state_def)
  have active: "telemetry_active ?up \<noteq> 0"
    by (simp add: initTelemetry_fields)
  have counter: "intervalIDCounter ?up = 0"
    by (simp add: initTelemetry_fields c0)
  note first = startInterval_active_eq [OF active, of tid' description']
  have id1: "fst ?first = intervalIDCounter ?up"
    by (simp add: first)
  have next1: "intervalIDCounter (snd ?first) = 1"
    by (simp add: first counter)
  have slot: "recordBuffer (snd ?first) ?slot =
        (recordBuffer ?up ?slot)
          \<lparr>interval_time := tsc_source ?up (length (hw_trace ?up)), recordType := IntervalStart,
           threadID := tid', interval_intervalID := 0, interval_description := description'\<rparr>"
    by (simp add: first counter)
  have active1: "telemetry_active (snd ?first) \<noteq> 0"
    using active by (simp add: startInterval_frame)
  have id2: "fst ?second = 1"
    using startInterval_active(1) [OF active1, of tid'' description''] next1 by simp
  have any: "fst (startInterval tid' description' a) = intervalIDCounter a \<and>
         intervalIDCounter (snd (startInterval tid' description' a)) = intervalIDCounter a + 1"
    if "telemetry_active a \<noteq> 0" for a
    using startInterval_active [OF that] by simp
  show ?thesis
    unfolding Let_def
    using off c0 active counter id1 next1 slot id2 any by simp
qed

theorem startInterval_sentinel_is_first_id_witness:
  "telemetry_active (initial_state example_tsc example_clock) = 0 \<and>
   startInterval 7 ''gc'' (initial_state example_tsc example_clock)
     = (0, initial_state example_tsc example_clock) \<and>
   intervalIDCounter (initTelemetry example_fpu [] (initial_state example_tsc example_clock)) = 0 \<and>
   fst (startInterval 8 ''mark''
          (initTelemetry example_fpu [] (initial_state example_tsc example_clock))) = 0 \<and>
   intervalIDCounter (snd (startInterval 8 ''mark''
          (initTelemetry example_fpu [] (initial_state example_tsc example_clock)))) = 1 \<and>
   recordType (recordBuffer (snd (startInterval 8 ''mark''
          (initTelemetry example_fpu [] (initial_state example_tsc example_clock)))) 2)
     = IntervalStart \<and>
   interval_intervalID (recordBuffer (snd (startInterval 8 ''mark''
          (initTelemetry example_fpu [] (initial_state example_tsc example_clock)))) 2) = 0 \<and>
   fst (startInterval 9 ''sweep'' (snd (startInterval 8 ''mark''
          (initTelemetry example_fpu [] (initial_state example_tsc example_clock))))) = 1"
proof -
  let ?boot = "initial_state example_tsc example_clock"
  let ?up = "initTelemetry example_fpu [] ?boot"
  let ?first = "startInterval 8 ''mark'' ?up"
  have off: "telemetry_active ?boot = 0"
    by (simp add: initial_state_def)
  have idx: "unat (recordBufferIndex ?up) = 2"
    by (simp add: initTelemetry_fields initial_state_def RECORD_BUFFER_SIZE_def)
  from startInterval_sentinel_is_first_id
    [OF off, of example_fpu "[]" example_tsc example_clock 8 "''mark''" 9 "''sweep''" 7 "''gc''"]
  have "startInterval 7 ''gc'' ?boot = (0, ?boot) \<and>
      intervalIDCounter ?up = 0 \<and>
      fst ?first = 0 \<and>
      intervalIDCounter (snd ?first) = 1 \<and>
      recordBuffer (snd ?first) 2 =
        (recordBuffer ?up 2)
          \<lparr>interval_time := tsc_source ?up (length (hw_trace ?up)), recordType := IntervalStart,
           threadID := 8, interval_intervalID := 0, interval_description := ''mark''\<rparr> \<and>
      fst (startInterval 9 ''sweep'' (snd ?first)) = 1"
    unfolding Let_def idx by blast
  then show ?thesis
    using off by simp
qed

section \<open>Thread ids of the start-up records\<close>

text \<open>
  Claim C10. \<open>initTelemetry\<close> takes two different slots, the one at the write cursor for
  the Calibration record and the next one for the Epoch record. In the first it writes
  \<open>calibration.ticksPerSecond\<close> and \<open>recordType\<close>, in the second \<open>epoch.time\<close> and
  \<open>recordType\<close>; every other field, \<open>threadID\<close> included, keeps the value the slot held
  before. The lines of both records start with the thread id field, which shows that
  old value. In the zero-initialised buffer the old value is 0, rendered as nine blanks
  and \<open>0\<close>.
\<close>

theorem initTelemetry_leaves_threadID:
  "let s' = initTelemetry fp outfile s;
       c = unat (recordBufferIndex s);
       e = unat ((recordBufferIndex s + 1) mod RECORD_BUFFER_SIZE)
   in c \<noteq> e \<and>
      recordBuffer s' c =
        (recordBuffer s c)\<lparr>calibration_ticksPerSecond := ticksPerSecond s', recordType := Calibration\<rparr> \<and>
      recordBuffer s' e =
        (recordBuffer s e)\<lparr>epoch_time := beginningEpoch s', recordType := Epoch\<rparr> \<and>
      threadID (recordBuffer s' c) = threadID (recordBuffer s c) \<and>
      threadID (recordBuffer s' e) = threadID (recordBuffer s e) \<and>
      serializeRecord fp s' (recordBuffer s' c) =
        printf_x 10 (ucast (threadID (recordBuffer s c))) @ '' '' @ ''Calibration: ''
          @ printf_f fp (ticksPerSecond s') @ '' ticks per second'' @ newline \<and>
      serializeRecord fp s' (recordBuffer s' e) =
        printf_x 10 (ucast (threadID (recordBuffer s e))) @ '' '' @ ''Epoch counter: ''
          @ printf_ld 0 (beginningEpoch s') @ newline \<and>
      threadID (recordBuffer (initial_state tsc clock) n) = 0 \<and>
      printf_x 10 (ucast (0 :: intptr_t)) = ''         0''"
proof -
  let ?s' = "initTelemetry fp outfile s"
  let ?c = "unat (recordBufferIndex s)"
  let ?e = "unat ((recordBufferIndex s + 1) mod RECORD_BUFFER_SIZE)"
  have ne: "?c \<noteq> ?e"
    using next_index_neq [of "recordBufferIndex s"] by simp
  have c: "recordBuffer ?s' ?c =
      (recordBuffer s ?c)\<lparr>calibration_ticksPerSecond := ticksPerSecond ?s', recordType := Calibration\<rparr>"
    using ne by (simp add: initTelemetry_recordBuffer)
  have e: "recordBuffer ?s' ?e =
      (recordBuffer s ?e)\<lparr>epoch_time := beginningEpoch ?s', recordType := Epoch\<rparr>"
    by (simp add: initTelemetry_recordBuffer)
  have zero: "threadID (recordBuffer (initial_state tsc clock) n) = 0"
    by (simp add: initial_state_def zero_record_def)
  have blank: "printf_x 10 (ucast (0 :: intptr_t)) = ''         0''"
    by (simp add: printf_eval)
  show ?thesis
    unfolding Let_def
    using ne zero blank by (simp add: c e serializeRecord_eqs)
qed

end
